theory Spec2Isabelle
  imports Main "HOL-Library.AList"
begin

section \<open>The WebRTC call manager of SafeTalk (static/js/webrtc.js)\<close>

text \<open>
  The development embeds class \<open>WebRTCCallManager\<close> of \<open>static/js/webrtc.js\<close> and the
  \<open>endCall\<close>/\<open>onCallStateChange\<close> pair of class \<open>VideoCallUI\<close> of
  \<open>staticfiles/js/drag-drop.js\<close>.

  Conventions of the embedding:
  \<^item> the manager object is a record; every method takes the record and returns the updated one;
  \<^item> a method that can end in an exception returns a \<open>completion\<close>: \<open>Normal m\<close> or
    \<open>Throw e m\<close>, both carrying the state reached, since JavaScript keeps the mutations made
    before the exception;
  \<^item> what the manager does to the outside (socket sends and closes, closing the peer connection,
    stopping tracks, calling the subscriber callbacks, \<open>console.error\<close>) is appended, in program
    order, to the \<open>effects\<close> list of the record;
  \<^item> the browser operations whose outcome the code cannot decide (\<open>getUserMedia\<close>,
    \<open>createOffer\<close>, \<open>createAnswer\<close>, \<open>setLocalDescription\<close>, \<open>setRemoteDescription\<close>,
    \<open>addIceCandidate\<close>) are the fields of a \<open>platform\<close> record that every method using them
    takes as a parameter, so the theorems hold for every behaviour of the browser;
  \<^item> an \<open>async\<close> method runs as one step: no other handler is interleaved at its \<open>await\<close>s;
  \<^item> a subscriber callback, where one is installed, returns normally and does not call back into
    the manager; the one subscriber of the repository that does call back
    (\<open>VideoCallUI.onCallStateChange\<close>) is modelled separately at the end of the definitions.
\<close>

subsection \<open>JavaScript values on the signaling channel\<close>

datatype json =
    JUndefined
  | JNull
  | JBool bool
  | JNum int
  | JStr string
  | JObj "(string \<times> json) list"

datatype js_error =
    TypeError
  | DOMException string
  | Error string

datatype 'a completion = Normal 'a | Throw js_error 'a

fun state_of :: "'a completion \<Rightarrow> 'a" where
  "state_of (Normal m) = m"
| "state_of (Throw e m) = m"

text \<open>\<open>if (v)\<close>: the values JavaScript takes for false.\<close>

fun truthy :: "json \<Rightarrow> bool" where
  "truthy JUndefined = False"
| "truthy JNull = False"
| "truthy (JBool b) = b"
| "truthy (JNum n) = (n \<noteq> 0)"
| "truthy (JStr s) = (s \<noteq> [])"
| "truthy (JObj kvs) = True"

text \<open>\<open>v.k\<close>: a TypeError on \<open>undefined\<close> and \<open>null\<close>, \<open>undefined\<close> for a missing key.\<close>

fun get_prop :: "json \<Rightarrow> string \<Rightarrow> js_error + json" where
  "get_prop JUndefined k = Inl TypeError"
| "get_prop JNull k = Inl TypeError"
| "get_prop (JObj kvs) k = Inr (case map_of kvs k of None \<Rightarrow> JUndefined | Some v \<Rightarrow> v)"
| "get_prop (JBool b) k = Inr JUndefined"
| "get_prop (JNum n) k = Inr JUndefined"
| "get_prop (JStr s) k = Inr JUndefined"

text \<open>
  \<open>JSON.parse(JSON.stringify(v))\<close>: what the peer reads of a value that was sent. A property
  whose value is \<open>undefined\<close> is not serialised.
\<close>

fun JSON_wire :: "json \<Rightarrow> json" where
  "JSON_wire (JObj kvs) =
     JObj (map (\<lambda>kv. (fst kv, JSON_wire (snd kv))) (filter (\<lambda>kv. snd kv \<noteq> JUndefined) kvs))"
| "JSON_wire JUndefined = JUndefined"
| "JSON_wire JNull = JNull"
| "JSON_wire (JBool b) = JBool b"
| "JSON_wire (JNum n) = JNum n"
| "JSON_wire (JStr s) = JStr s"

text \<open>
  The object literal \<open>{ type: type, [type]: data }\<close> of \<open>sendSignalingMessage\<close>: the computed
  key is written second and replaces the first one when both are \<open>type\<close>.
\<close>

definition signaling_message :: "string \<Rightarrow> json \<Rightarrow> json" where
  "signaling_message type data =
     JObj (AList.update type data (AList.update ''type'' (JStr type) []))"

subsection \<open>Browser objects\<close>

datatype track_kind = Audio | Video

datatype track_state = Live | Ended

record media_track =
  kind :: track_kind
  enabled :: bool
  track_readyState :: track_state

type_synonym track_ref = nat

datatype socket_state = CONNECTING | OPEN | CLOSING | CLOSED

record web_socket =
  url :: string
  readyState :: socket_state

record session_description =
  sdp :: string
  sd_type :: string

record peer_connection =
  connectionState :: string
  signalingState :: string
  localDescription :: "session_description option"
  remoteDescription :: "json option"
  remoteCandidates :: "json list"
  senders :: "track_ref list"

definition new_RTCPeerConnection :: peer_connection where
  "new_RTCPeerConnection =
     \<lparr>connectionState = ''new'', signalingState = ''stable'', localDescription = None,
      remoteDescription = None, remoteCandidates = [], senders = []\<rparr>"

definition addTrack :: "peer_connection \<Rightarrow> track_ref \<Rightarrow> peer_connection" where
  "addTrack pc t = pc\<lparr>senders := senders pc @ [t]\<rparr>"

text \<open>
  The browser operations whose outcome is the platform's. \<open>getUserMediaP\<close> takes whether
  video was requested and answers with the tracks of the new stream;
  \<open>setRemoteDescriptionP\<close> and \<open>addIceCandidateP\<close> include the constructors
  \<open>new RTCSessionDescription\<close> and \<open>new RTCIceCandidate\<close> applied to the received value.
\<close>

record platform =
  getUserMediaP :: "bool \<Rightarrow> js_error + (track_ref \<times> track_kind) list"
  createOfferP :: "peer_connection \<Rightarrow> js_error + session_description"
  createAnswerP :: "peer_connection \<Rightarrow> js_error + session_description"
  setLocalDescriptionP :: "peer_connection \<Rightarrow> session_description \<Rightarrow> js_error + peer_connection"
  setRemoteDescriptionP :: "peer_connection \<Rightarrow> json \<Rightarrow> js_error + peer_connection"
  addIceCandidateP :: "peer_connection \<Rightarrow> json \<Rightarrow> js_error + peer_connection"

subsection \<open>The manager\<close>

datatype effect =
    SocketSend json
  | SocketClose
  | PeerConnectionClose
  | TrackStop track_ref
  | CallStateChange string
  | LocalStream "track_ref list"
  | RemoteStream "track_ref list"
  | ConsoleError string

text \<open>
  The fields of the constructor, then the track objects (\<open>tracks\<close>, by reference: a stream is
  the list of its tracks' references) and the effects so far. A callback field is \<open>True\<close> when
  a subscriber is installed.
\<close>

record call_manager =
  peerConnection :: "peer_connection option"
  localStream :: "track_ref list option"
  remoteStream :: "track_ref list option"
  signalingSocket :: "web_socket option"
  callSessionId :: "string option"
  isInitiator :: bool
  callType :: string
  onCallStateChange :: bool
  onRemoteStream :: bool
  onLocalStream :: bool
  tracks :: "track_ref \<Rightarrow> media_track"
  effects :: "effect list"

definition constructor :: "(track_ref \<Rightarrow> media_track) \<Rightarrow> call_manager" where
  "constructor store =
     \<lparr>peerConnection = None, localStream = None, remoteStream = None, signalingSocket = None,
      callSessionId = None, isInitiator = False, callType = ''voice'',
      onCallStateChange = False, onRemoteStream = False, onLocalStream = False,
      tracks = store, effects = []\<rparr>"

definition console_error :: "string \<Rightarrow> call_manager \<Rightarrow> call_manager" where
  "console_error msg m = m\<lparr>effects := effects m @ [ConsoleError msg]\<rparr>"

text \<open>\<open>catch (error) { console.error(msg, error); throw error; }\<close>\<close>

definition catch_rethrow :: "string \<Rightarrow> call_manager completion \<Rightarrow> call_manager completion" where
  "catch_rethrow msg r =
     (case r of Normal m \<Rightarrow> Normal m | Throw e m \<Rightarrow> Throw e (console_error msg m))"

text \<open>\<open>catch (error) { console.error(msg, error); }\<close>\<close>

definition catch_log :: "string \<Rightarrow> call_manager completion \<Rightarrow> call_manager completion" where
  "catch_log msg r =
     (case r of Normal m \<Rightarrow> Normal m | Throw e m \<Rightarrow> Normal (console_error msg m))"

definition updateCallState :: "string \<Rightarrow> call_manager \<Rightarrow> call_manager" where
  "updateCallState state m =
     (if onCallStateChange m then m\<lparr>effects := effects m @ [CallStateChange state]\<rparr> else m)"

definition sendSignalingMessage :: "string \<Rightarrow> json \<Rightarrow> call_manager \<Rightarrow> call_manager" where
  "sendSignalingMessage type data m =
     (case signalingSocket m of
        None \<Rightarrow> m
      | Some ws \<Rightarrow>
          if readyState ws = OPEN
          then m\<lparr>effects := effects m @ [SocketSend (JSON_wire (signaling_message type data))]\<rparr>
          else m)"

definition getUserMedia :: "platform \<Rightarrow> call_manager \<Rightarrow> call_manager completion" where
  "getUserMedia P m =
     (case getUserMediaP P (callType m = ''video'') of
        Inl e \<Rightarrow>
          Throw (Error ''Could not access camera/microphone. Please check permissions.'')
            (console_error ''Error accessing media devices:'' m)
      | Inr ts \<Rightarrow>
          (let m1 = m\<lparr>localStream := Some (map fst ts),
                      tracks := fold (\<lambda>(r, k) store.
                                  store(r := \<lparr>kind = k, enabled = True, track_readyState = Live\<rparr>))
                                ts (tracks m)\<rparr>
           in Normal (if onLocalStream m1
                      then m1\<lparr>effects := effects m1 @ [LocalStream (map fst ts)]\<rparr>
                      else m1)))"

definition createPeerConnection :: "call_manager \<Rightarrow> call_manager completion" where
  "createPeerConnection m =
     (let m1 = m\<lparr>peerConnection := Some new_RTCPeerConnection\<rparr>
      in case localStream m1 of
           None \<Rightarrow> Throw TypeError m1
         | Some ts \<Rightarrow> Normal (m1\<lparr>peerConnection := Some (foldl addTrack new_RTCPeerConnection ts)\<rparr>))"

definition setupSignaling :: "call_manager \<Rightarrow> call_manager" where
  "setupSignaling m =
     m\<lparr>signalingSocket :=
         Some \<lparr>url = ''/ws/call/'' @ (case callSessionId m of None \<Rightarrow> ''null'' | Some s \<Rightarrow> s) @ ''/'',
               readyState = CONNECTING\<rparr>\<rparr>"

definition description_json :: "session_description \<Rightarrow> json" where
  "description_json d = JObj [(''sdp'', JStr (sdp d)), (''type'', JStr (sd_type d))]"

definition createOffer :: "platform \<Rightarrow> call_manager \<Rightarrow> call_manager completion" where
  "createOffer P m =
     catch_rethrow ''Error creating offer:''
       (case peerConnection m of
          None \<Rightarrow> Throw TypeError m
        | Some pc \<Rightarrow>
            (case createOfferP P pc of
               Inl e \<Rightarrow> Throw e m
             | Inr offer \<Rightarrow>
                 (case setLocalDescriptionP P pc offer of
                    Inl e \<Rightarrow> Throw e m
                  | Inr pc' \<Rightarrow>
                      Normal (sendSignalingMessage ''offer'' (description_json offer)
                                (m\<lparr>peerConnection := Some pc'\<rparr>)))))"

definition createAnswer :: "platform \<Rightarrow> call_manager \<Rightarrow> call_manager completion" where
  "createAnswer P m =
     catch_rethrow ''Error creating answer:''
       (case peerConnection m of
          None \<Rightarrow> Throw TypeError m
        | Some pc \<Rightarrow>
            (case createAnswerP P pc of
               Inl e \<Rightarrow> Throw e m
             | Inr answer \<Rightarrow>
                 (case setLocalDescriptionP P pc answer of
                    Inl e \<Rightarrow> Throw e m
                  | Inr pc' \<Rightarrow>
                      Normal (sendSignalingMessage ''answer'' (description_json answer)
                                (m\<lparr>peerConnection := Some pc'\<rparr>)))))"

definition initializeCall ::
  "platform \<Rightarrow> string \<Rightarrow> string \<Rightarrow> bool \<Rightarrow> call_manager \<Rightarrow> call_manager completion" where
  "initializeCall P sid ctype isInit m =
     (let m0 = m\<lparr>callSessionId := Some sid, callType := ctype, isInitiator := isInit\<rparr>
      in case (case getUserMedia P m0 of
                 Throw e m1 \<Rightarrow> Throw e m1
               | Normal m1 \<Rightarrow>
                   (case createPeerConnection m1 of
                      Throw e m2 \<Rightarrow> Throw e m2
                    | Normal m2 \<Rightarrow>
                        (case (if isInit then createOffer P (setupSignaling m2)
                               else Normal (setupSignaling m2)) of
                           Throw e m3 \<Rightarrow> Throw e m3
                         | Normal m3 \<Rightarrow> Normal (updateCallState ''connecting'' m3)))) of
           Normal m' \<Rightarrow> Normal m'
         | Throw e m' \<Rightarrow>
             Throw e (updateCallState ''failed'' (console_error ''Failed to initialize call:'' m')))"

definition handleAnswer :: "platform \<Rightarrow> json \<Rightarrow> call_manager \<Rightarrow> call_manager completion" where
  "handleAnswer P answer m =
     catch_log ''Error handling answer:''
       (case peerConnection m of
          None \<Rightarrow> Throw TypeError m
        | Some pc \<Rightarrow>
            (case setRemoteDescriptionP P pc answer of
               Inl e \<Rightarrow> Throw e m
             | Inr pc' \<Rightarrow> Normal (m\<lparr>peerConnection := Some pc'\<rparr>)))"

definition handleOffer :: "platform \<Rightarrow> json \<Rightarrow> call_manager \<Rightarrow> call_manager completion" where
  "handleOffer P offer m =
     catch_log ''Error handling offer:''
       (case peerConnection m of
          None \<Rightarrow> Throw TypeError m
        | Some pc \<Rightarrow>
            (case setRemoteDescriptionP P pc offer of
               Inl e \<Rightarrow> Throw e m
             | Inr pc' \<Rightarrow> createAnswer P (m\<lparr>peerConnection := Some pc'\<rparr>)))"

definition handleIceCandidate :: "platform \<Rightarrow> json \<Rightarrow> call_manager \<Rightarrow> call_manager completion" where
  "handleIceCandidate P candidate m =
     catch_log ''Error handling ICE candidate:''
       (if truthy candidate
        then (case peerConnection m of
                None \<Rightarrow> Throw TypeError m
              | Some pc \<Rightarrow>
                  (case addIceCandidateP P pc candidate of
                     Inl e \<Rightarrow> Throw e m
                   | Inr pc' \<Rightarrow> Normal (m\<lparr>peerConnection := Some pc'\<rparr>)))
        else Normal m)"

text \<open>\<open>track.stop()\<close> and \<open>getTracks().forEach(track => track.stop())\<close>\<close>

definition stop :: "track_ref \<Rightarrow> call_manager \<Rightarrow> call_manager" where
  "stop t m =
     m\<lparr>tracks := (tracks m)(t := (tracks m t)\<lparr>track_readyState := Ended\<rparr>),
       effects := effects m @ [TrackStop t]\<rparr>"

definition close_peerConnection :: "call_manager \<Rightarrow> call_manager" where
  "close_peerConnection m =
     (case peerConnection m of
        None \<Rightarrow> m
      | Some pc \<Rightarrow> m\<lparr>effects := effects m @ [PeerConnectionClose], peerConnection := None\<rparr>)"

definition stop_localStream :: "call_manager \<Rightarrow> call_manager" where
  "stop_localStream m =
     (case localStream m of
        None \<Rightarrow> m
      | Some ts \<Rightarrow> (fold stop ts m)\<lparr>localStream := None\<rparr>)"

definition close_signalingSocket :: "call_manager \<Rightarrow> call_manager" where
  "close_signalingSocket m =
     (case signalingSocket m of
        None \<Rightarrow> m
      | Some ws \<Rightarrow> m\<lparr>effects := effects m @ [SocketClose], signalingSocket := None\<rparr>)"

text \<open>
  \<open>endCall\<close>: the hangup message, then the three guarded blocks in the order of the source,
  then the notification.
\<close>

definition endCall :: "call_manager \<Rightarrow> call_manager" where
  "endCall m =
     updateCallState ''ended''
       (close_signalingSocket
          (stop_localStream
             (close_peerConnection
                (sendSignalingMessage ''hangup'' (JObj []) m))))"

definition handleHangup :: "call_manager \<Rightarrow> call_manager" where
  "handleHangup m = endCall m"

definition handleSignalingMessage ::
  "platform \<Rightarrow> json \<Rightarrow> call_manager \<Rightarrow> call_manager completion" where
  "handleSignalingMessage P data m =
     catch_log ''Error handling signaling message:''
       (case get_prop data ''type'' of
          Inl e \<Rightarrow> Throw e m
        | Inr t \<Rightarrow>
            if t = JStr ''offer'' then
              (case get_prop data ''offer'' of
                 Inl e \<Rightarrow> Throw e m | Inr v \<Rightarrow> handleOffer P v m)
            else if t = JStr ''answer'' then
              (case get_prop data ''answer'' of
                 Inl e \<Rightarrow> Throw e m | Inr v \<Rightarrow> handleAnswer P v m)
            else if t = JStr ''ice_candidate'' then
              (case get_prop data ''candidate'' of
                 Inl e \<Rightarrow> Throw e m | Inr v \<Rightarrow> handleIceCandidate P v m)
            else if t = JStr ''hangup'' then Normal (handleHangup m)
            else Normal m)"

definition getAudioTracks :: "call_manager \<Rightarrow> track_ref list \<Rightarrow> track_ref list" where
  "getAudioTracks m ts = filter (\<lambda>t. kind (tracks m t) = Audio) ts"

definition getVideoTracks :: "call_manager \<Rightarrow> track_ref list \<Rightarrow> track_ref list" where
  "getVideoTracks m ts = filter (\<lambda>t. kind (tracks m t) = Video) ts"

definition flip_enabled :: "track_ref \<Rightarrow> call_manager \<Rightarrow> call_manager" where
  "flip_enabled t m =
     m\<lparr>tracks := (tracks m)(t := (tracks m t)\<lparr>enabled := \<not> enabled (tracks m t)\<rparr>)\<rparr>"

definition toggleAudio :: "call_manager \<Rightarrow> bool \<times> call_manager" where
  "toggleAudio m =
     (case localStream m of
        None \<Rightarrow> (False, m)
      | Some ts \<Rightarrow>
          (case getAudioTracks m ts of
             [] \<Rightarrow> (False, m)
           | audioTrack # rest \<Rightarrow>
               (enabled (tracks (flip_enabled audioTrack m) audioTrack),
                flip_enabled audioTrack m)))"

definition toggleVideo :: "call_manager \<Rightarrow> bool \<times> call_manager" where
  "toggleVideo m =
     (case localStream m of
        None \<Rightarrow> (False, m)
      | Some ts \<Rightarrow>
          (case getVideoTracks m ts of
             [] \<Rightarrow> (False, m)
           | videoTrack # rest \<Rightarrow>
               (enabled (tracks (flip_enabled videoTrack m) videoTrack),
                flip_enabled videoTrack m)))"

subsection \<open>The callbacks registered on the peer connection\<close>

definition onicecandidate :: "json \<Rightarrow> call_manager \<Rightarrow> call_manager" where
  "onicecandidate candidate m =
     (if truthy candidate
      then sendSignalingMessage ''ice_candidate'' (JObj [(''candidate'', candidate)]) m
      else m)"

definition onconnectionstatechange :: "call_manager \<Rightarrow> call_manager completion" where
  "onconnectionstatechange m =
     (case peerConnection m of
        None \<Rightarrow> Throw TypeError m
      | Some pc \<Rightarrow>
          Normal
            (if connectionState pc = ''connected'' then updateCallState ''connected'' m
             else if connectionState pc = ''disconnected'' \<or> connectionState pc = ''failed''
               then updateCallState ''disconnected'' m
             else if connectionState pc = ''closed'' then updateCallState ''ended'' m
             else m))"

definition ontrack :: "track_ref \<Rightarrow> call_manager \<Rightarrow> call_manager" where
  "ontrack t m =
     (let rs = (case remoteStream m of None \<Rightarrow> [] | Some ts \<Rightarrow> ts);
          rs' = (if t \<in> set rs then rs else rs @ [t]);
          m1 = m\<lparr>remoteStream := Some rs'\<rparr>
      in if onRemoteStream m1 then m1\<lparr>effects := effects m1 @ [RemoteStream rs']\<rparr> else m1)"

subsection \<open>Runs of the manager\<close>

text \<open>
  What can happen to a manager: a call of a public method, the assignment of a callback,
  and the events of the socket and of the peer connection. The browser changes the state of
  its object and then calls the handler the manager registered. The handlers are closures
  over the manager, so a connection that the manager no longer holds can still call
  \<open>onconnectionstatechange\<close>, which then reads the state of the connection the manager holds
  now (\<open>Pc_connectionstatechange_stale\<close>).
\<close>

datatype event =
    Call_initializeCall string string bool
  | Call_endCall
  | Call_toggleAudio
  | Call_toggleVideo
  | Set_onCallStateChange bool
  | Set_onLocalStream bool
  | Set_onRemoteStream bool
  | Socket_open
  | Socket_close
  | Socket_message json
  | Pc_icecandidate json
  | Pc_connectionstatechange string
  | Pc_connectionstatechange_stale
  | Pc_track track_ref

fun step :: "platform \<Rightarrow> event \<Rightarrow> call_manager \<Rightarrow> call_manager" where
  "step P (Call_initializeCall sid ctype isInit) m = state_of (initializeCall P sid ctype isInit m)"
| "step P Call_endCall m = endCall m"
| "step P Call_toggleAudio m = snd (toggleAudio m)"
| "step P Call_toggleVideo m = snd (toggleVideo m)"
| "step P (Set_onCallStateChange b) m = m\<lparr>onCallStateChange := b\<rparr>"
| "step P (Set_onLocalStream b) m = m\<lparr>onLocalStream := b\<rparr>"
| "step P (Set_onRemoteStream b) m = m\<lparr>onRemoteStream := b\<rparr>"
| "step P Socket_open m =
     (case signalingSocket m of
        None \<Rightarrow> m
      | Some ws \<Rightarrow> m\<lparr>signalingSocket := Some (ws\<lparr>readyState := OPEN\<rparr>)\<rparr>)"
| "step P Socket_close m =
     (case signalingSocket m of
        None \<Rightarrow> m
      | Some ws \<Rightarrow> m\<lparr>signalingSocket := Some (ws\<lparr>readyState := CLOSED\<rparr>)\<rparr>)"
| "step P (Socket_message data) m = state_of (handleSignalingMessage P data m)"
| "step P (Pc_icecandidate c) m = onicecandidate c m"
| "step P (Pc_connectionstatechange s) m =
     (case peerConnection m of
        None \<Rightarrow> m
      | Some pc \<Rightarrow>
          state_of (onconnectionstatechange (m\<lparr>peerConnection := Some (pc\<lparr>connectionState := s\<rparr>)\<rparr>)))"
| "step P Pc_connectionstatechange_stale m = state_of (onconnectionstatechange m)"
| "step P (Pc_track t) m = ontrack t m"

fun run :: "platform \<Rightarrow> event list \<Rightarrow> call_manager \<Rightarrow> call_manager" where
  "run P [] m = m"
| "run P (e # es) m = run P es (step P e m)"

subsection \<open>Reading the effects\<close>

text \<open>The values delivered to \<open>onCallStateChange\<close>, the tracks stopped, the messages sent.\<close>

fun delivered :: "effect list \<Rightarrow> string list" where
  "delivered [] = []"
| "delivered (CallStateChange s # es) = s # delivered es"
| "delivered (e # es) = delivered es"

fun sent :: "effect list \<Rightarrow> json list" where
  "sent [] = []"
| "sent (SocketSend j # es) = j # sent es"
| "sent (e # es) = sent es"

definition CallState :: "string set" where
  "CallState = {''idle'', ''connecting'', ''ringing'', ''connected'', ''ended'', ''failed''}"

definition emitted_states :: "string set" where
  "emitted_states = {''connecting'', ''connected'', ''disconnected'', ''ended'', ''failed''}"

subsection \<open>The subscriber of the repository: VideoCallUI (staticfiles/js/drag-drop.js)\<close>

text \<open>
  \<open>VideoCallUI.startCall\<close> installs \<open>(state) => this.onCallStateChange(state)\<close> as the
  manager's \<open>onCallStateChange\<close>, and \<open>VideoCallUI.onCallStateChange\<close> calls
  \<open>this.endCall()\<close> on \<open>'ended'\<close>, which calls the manager's \<open>endCall\<close> while
  \<open>this.callManager\<close> is set. The calls nest, so the function takes the number of stack
  frames left and returns \<open>None\<close> when they run out (JavaScript's RangeError).
\<close>

record video_call_ui =
  callManager :: bool
  currentCallSessionId :: "string option"
  callTimer :: bool
  callStatus :: string
  containerShown :: bool

fun VideoCallUI_endCall ::
  "nat \<Rightarrow> video_call_ui \<Rightarrow> call_manager \<Rightarrow> (video_call_ui \<times> call_manager) option" where
  "VideoCallUI_endCall 0 ui m = None"
| "VideoCallUI_endCall (Suc n) ui m =
     (case (if callManager ui
            then (case (if onCallStateChange (endCall m)
                        then VideoCallUI_endCall n (ui\<lparr>callStatus := ''Call ended''\<rparr>) (endCall m)
                        else Some (ui, endCall m)) of
                    None \<Rightarrow> None
                  | Some (ui1, m1) \<Rightarrow> Some (ui1\<lparr>callManager := False\<rparr>, m1))
            else Some (ui, m)) of
        None \<Rightarrow> None
      | Some (ui2, m2) \<Rightarrow>
          Some (ui2\<lparr>containerShown := False, currentCallSessionId := None, callTimer := False\<rparr>, m2))"

subsection \<open>A sample platform and sample sessions\<close>

text \<open>
  For the concrete runs: a browser that grants the media, follows the signalling states of
  the W3C API (an answer is accepted only after a local offer, \<open>createAnswer\<close> only after
  a remote offer, a candidate only after a remote description), and two browsers that refuse
  the media, one for a denied permission and one for a missing device.
\<close>

definition InvalidStateError :: js_error where
  "InvalidStateError = DOMException ''InvalidStateError''"

definition browser :: platform where
  "browser =
     \<lparr>getUserMediaP = (\<lambda>video. Inr (if video then [(0, Audio), (1, Video)] else [(0, Audio)])),
      createOfferP = (\<lambda>pc.
        if signalingState pc = ''closed'' then Inl InvalidStateError
        else Inr \<lparr>sdp = ''v=0 o=caller'', sd_type = ''offer''\<rparr>),
      createAnswerP = (\<lambda>pc.
        if signalingState pc = ''have-remote-offer''
        then Inr \<lparr>sdp = ''v=0 o=callee'', sd_type = ''answer''\<rparr>
        else Inl InvalidStateError),
      setLocalDescriptionP = (\<lambda>pc d.
        if sd_type d = ''offer'' \<and> signalingState pc \<in> {''stable'', ''have-local-offer''}
        then Inr (pc\<lparr>signalingState := ''have-local-offer'', localDescription := Some d\<rparr>)
        else if sd_type d = ''answer'' \<and> signalingState pc = ''have-remote-offer''
        then Inr (pc\<lparr>signalingState := ''stable'', localDescription := Some d\<rparr>)
        else Inl InvalidStateError),
      setRemoteDescriptionP = (\<lambda>pc d.
        if get_prop d ''type'' = Inr (JStr ''offer'')
           \<and> signalingState pc \<in> {''stable'', ''have-remote-offer''}
        then Inr (pc\<lparr>signalingState := ''have-remote-offer'', remoteDescription := Some d\<rparr>)
        else if get_prop d ''type'' = Inr (JStr ''answer'')
           \<and> signalingState pc = ''have-local-offer''
        then Inr (pc\<lparr>signalingState := ''stable'', remoteDescription := Some d\<rparr>)
        else Inl InvalidStateError),
      addIceCandidateP = (\<lambda>pc c.
        if remoteDescription pc = None then Inl InvalidStateError
        else Inr (pc\<lparr>remoteCandidates := remoteCandidates pc @ [c]\<rparr>))\<rparr>"

definition permission_denied :: platform where
  "permission_denied = browser\<lparr>getUserMediaP := (\<lambda>video. Inl (DOMException ''NotAllowedError''))\<rparr>"

definition device_unavailable :: platform where
  "device_unavailable = browser\<lparr>getUserMediaP := (\<lambda>video. Inl (DOMException ''NotFoundError''))\<rparr>"

definition no_tracks :: "track_ref \<Rightarrow> media_track" where
  "no_tracks = (\<lambda>r. \<lparr>kind = Audio, enabled = False, track_readyState = Ended\<rparr>)"

text \<open>A manager as \<open>VideoCallUI.startCall\<close> leaves it before \<open>initializeCall\<close>.\<close>

definition subscribed :: call_manager where
  "subscribed =
     (constructor no_tracks)\<lparr>onCallStateChange := True, onRemoteStream := True, onLocalStream := True\<rparr>"

definition sample_offer :: json where
  "sample_offer = JObj [(''sdp'', JStr ''v=0 o=caller''), (''type'', JStr ''offer'')]"

definition sample_answer :: json where
  "sample_answer = JObj [(''sdp'', JStr ''v=0 o=callee''), (''type'', JStr ''answer'')]"

definition sample_candidate :: json where
  "sample_candidate =
     JObj [(''candidate'', JStr ''candidate:1 1 UDP 2122252543 192.0.2.1 54321 typ host''),
           (''sdpMid'', JStr ''0''), (''sdpMLineIndex'', JNum 0)]"

text \<open>The responder of a video call once its socket is open, before any offer has reached it.\<close>

definition waiting_responder :: call_manager where
  "waiting_responder =
     run browser [Call_initializeCall ''sess-1'' ''video'' False, Socket_open] subscribed"

text \<open>
  The same responder, connected: the peer's offer arrives and is answered, the connection
  reports \<open>connected\<close>.
\<close>

definition connected_call :: call_manager where
  "connected_call =
     run browser
       [Socket_message (signaling_message ''offer'' sample_offer),
        Pc_connectionstatechange ''connected'']
       waiting_responder"

text \<open>
  The initiator of a voice call right after \<open>initializeCall\<close>: its socket is still
  connecting.
\<close>

definition connecting_caller :: call_manager where
  "connecting_caller = run browser [Call_initializeCall ''sess-1'' ''voice'' True] subscribed"

section \<open>Properties\<close>

subsection \<open>The sample sessions, evaluated\<close>

lemma tracks_granted:
  "fold (\<lambda>(r, k) store. store(r := \<lparr>kind = k, enabled = True, track_readyState = Live\<rparr>))
     [(0, Audio), (1, Video)] no_tracks
   = no_tracks(0 := \<lparr>kind = Audio, enabled = True, track_readyState = Live\<rparr>,
               1 := \<lparr>kind = Video, enabled = True, track_readyState = Live\<rparr>)"
  by simp

lemma waiting_responder_eq:
  "waiting_responder =
     \<lparr>peerConnection =
        Some \<lparr>connectionState = ''new'', signalingState = ''stable'', localDescription = None,
              remoteDescription = None, remoteCandidates = [], senders = [0, 1]\<rparr>,
      localStream = Some [0, 1], remoteStream = None,
      signalingSocket = Some \<lparr>url = ''/ws/call/sess-1/'', readyState = OPEN\<rparr>,
      callSessionId = Some ''sess-1'', isInitiator = False, callType = ''video'',
      onCallStateChange = True, onRemoteStream = True, onLocalStream = True,
      tracks = no_tracks(0 := \<lparr>kind = Audio, enabled = True, track_readyState = Live\<rparr>,
                         1 := \<lparr>kind = Video, enabled = True, track_readyState = Live\<rparr>),
      effects = [LocalStream [0, 1], CallStateChange ''connecting'']\<rparr>"
  by (simp add: waiting_responder_def subscribed_def constructor_def initializeCall_def
      getUserMedia_def browser_def createPeerConnection_def setupSignaling_def
      updateCallState_def new_RTCPeerConnection_def addTrack_def)

lemma connected_call_eq:
  "connected_call =
     \<lparr>peerConnection =
        Some \<lparr>connectionState = ''connected'', signalingState = ''stable'',
              localDescription = Some \<lparr>sdp = ''v=0 o=callee'', sd_type = ''answer''\<rparr>,
              remoteDescription = Some sample_offer, remoteCandidates = [], senders = [0, 1]\<rparr>,
      localStream = Some [0, 1], remoteStream = None,
      signalingSocket = Some \<lparr>url = ''/ws/call/sess-1/'', readyState = OPEN\<rparr>,
      callSessionId = Some ''sess-1'', isInitiator = False, callType = ''video'',
      onCallStateChange = True, onRemoteStream = True, onLocalStream = True,
      tracks = no_tracks(0 := \<lparr>kind = Audio, enabled = True, track_readyState = Live\<rparr>,
                         1 := \<lparr>kind = Video, enabled = True, track_readyState = Live\<rparr>),
      effects = [LocalStream [0, 1], CallStateChange ''connecting'',
                 SocketSend (signaling_message ''answer'' sample_answer),
                 CallStateChange ''connected'']\<rparr>"
  by (simp add: connected_call_def waiting_responder_eq handleSignalingMessage_def
      signaling_message_def sample_offer_def sample_answer_def handleOffer_def createAnswer_def
      catch_log_def catch_rethrow_def browser_def sendSignalingMessage_def description_json_def
      onconnectionstatechange_def updateCallState_def)

lemma connecting_caller_eq:
  "connecting_caller =
     \<lparr>peerConnection =
        Some \<lparr>connectionState = ''new'', signalingState = ''have-local-offer'',
              localDescription = Some \<lparr>sdp = ''v=0 o=caller'', sd_type = ''offer''\<rparr>,
              remoteDescription = None, remoteCandidates = [], senders = [0]\<rparr>,
      localStream = Some [0], remoteStream = None,
      signalingSocket = Some \<lparr>url = ''/ws/call/sess-1/'', readyState = CONNECTING\<rparr>,
      callSessionId = Some ''sess-1'', isInitiator = True, callType = ''voice'',
      onCallStateChange = True, onRemoteStream = True, onLocalStream = True,
      tracks = no_tracks(0 := \<lparr>kind = Audio, enabled = True, track_readyState = Live\<rparr>),
      effects = [LocalStream [0], CallStateChange ''connecting'']\<rparr>"
  by (simp add: connecting_caller_def subscribed_def constructor_def initializeCall_def
      getUserMedia_def browser_def createPeerConnection_def setupSignaling_def
      updateCallState_def new_RTCPeerConnection_def addTrack_def createOffer_def
      catch_rethrow_def sendSignalingMessage_def)

subsection \<open>Reading effect lists\<close>

lemma delivered_append: "delivered (xs @ ys) = delivered xs @ delivered ys"
  by (induction xs rule: delivered.induct) simp_all

lemma sent_append: "sent (xs @ ys) = sent xs @ sent ys"
  by (induction xs rule: sent.induct) simp_all

lemma sent_TrackStop: "sent (map TrackStop ts) = []"
  by (induction ts) simp_all

lemma delivered_TrackStop: "delivered (map TrackStop ts) = []"
  by (induction ts) simp_all

lemma console_error_fields:
  "peerConnection (console_error msg m) = peerConnection m"
  "localStream (console_error msg m) = localStream m"
  "remoteStream (console_error msg m) = remoteStream m"
  "signalingSocket (console_error msg m) = signalingSocket m"
  "tracks (console_error msg m) = tracks m"
  "onCallStateChange (console_error msg m) = onCallStateChange m"
  "delivered (effects (console_error msg m)) = delivered (effects m)"
  "sent (effects (console_error msg m)) = sent (effects m)"
  by (simp_all add: console_error_def delivered_append sent_append)

subsection \<open>Stopping tracks\<close>

lemma fold_stop_fields:
  "peerConnection (fold stop ts m) = peerConnection m"
  "localStream (fold stop ts m) = localStream m"
  "remoteStream (fold stop ts m) = remoteStream m"
  "signalingSocket (fold stop ts m) = signalingSocket m"
  "onCallStateChange (fold stop ts m) = onCallStateChange m"
  by (induction ts arbitrary: m) (simp_all add: stop_def)

lemma fold_stop_effects: "effects (fold stop ts m) = effects m @ map TrackStop ts"
  by (induction ts arbitrary: m) (simp_all add: stop_def)

lemma fold_stop_kept: "t \<notin> set ts \<Longrightarrow> tracks (fold stop ts m) t = tracks m t"
  by (induction ts arbitrary: m) (simp_all add: stop_def)

lemma stop_Ended: "track_readyState (tracks m t) = Ended \<Longrightarrow> track_readyState (tracks (stop u m) t) = Ended"
  by (simp add: stop_def)

lemma fold_stop_Ended_kept:
  "track_readyState (tracks m t) = Ended \<Longrightarrow> track_readyState (tracks (fold stop ts m) t) = Ended"
  by (induction ts arbitrary: m) (simp_all add: stop_Ended)

lemma fold_stop_Ended: "t \<in> set ts \<Longrightarrow> track_readyState (tracks (fold stop ts m) t) = Ended"
proof (induction ts arbitrary: m)
  case Nil
  then show ?case by simp
next
  case (Cons u us)
  show ?case
  proof (cases "t = u")
    case True
    have "track_readyState (tracks (stop u m) u) = Ended" by (simp add: stop_def)
    then show ?thesis using True by (simp add: fold_stop_Ended_kept)
  next
    case False
    then have "t \<in> set us" using Cons.prems by simp
    then show ?thesis using Cons.IH by simp
  qed
qed

subsection \<open>Hanging up\<close>

lemma hangup_message:
  "JSON_wire (signaling_message ''hangup'' (JObj [])) =
     JObj [(''type'', JStr ''hangup''), (''hangup'', JObj [])]"
  by (simp add: signaling_message_def)

lemma endCall_effects:
  "effects (endCall m) =
     effects m
     @ (case signalingSocket m of
          None \<Rightarrow> []
        | Some ws \<Rightarrow> if readyState ws = OPEN
                      then [SocketSend (JSON_wire (signaling_message ''hangup'' (JObj [])))] else [])
     @ (case peerConnection m of None \<Rightarrow> [] | Some pc \<Rightarrow> [PeerConnectionClose])
     @ (case localStream m of None \<Rightarrow> [] | Some ts \<Rightarrow> map TrackStop ts)
     @ (case signalingSocket m of None \<Rightarrow> [] | Some ws \<Rightarrow> [SocketClose])
     @ (if onCallStateChange m then [CallStateChange ''ended''] else [])"
  by (simp add: endCall_def updateCallState_def close_signalingSocket_def stop_localStream_def
      close_peerConnection_def sendSignalingMessage_def fold_stop_fields fold_stop_effects
      split: option.splits)

lemma endCall_fields:
  "peerConnection (endCall m) = None"
  "localStream (endCall m) = None"
  "signalingSocket (endCall m) = None"
  "onCallStateChange (endCall m) = onCallStateChange m"
  "remoteStream (endCall m) = remoteStream m"
  by (simp_all add: endCall_def updateCallState_def close_signalingSocket_def stop_localStream_def
      close_peerConnection_def sendSignalingMessage_def fold_stop_fields
      split: option.splits)

lemma endCall_stops:
  "localStream m = Some ts \<Longrightarrow> t \<in> set ts \<Longrightarrow> track_readyState (tracks (endCall m) t) = Ended"
  by (simp add: endCall_def updateCallState_def close_signalingSocket_def stop_localStream_def
      close_peerConnection_def sendSignalingMessage_def fold_stop_fields fold_stop_Ended
      split: option.splits)

lemma endCall_sent:
  "sent (effects (endCall m)) =
     sent (effects m)
     @ (case signalingSocket m of
          None \<Rightarrow> []
        | Some ws \<Rightarrow> if readyState ws = OPEN
                      then [JObj [(''type'', JStr ''hangup''), (''hangup'', JObj [])]] else [])"
  by (simp add: endCall_effects sent_append sent_TrackStop hangup_message split: option.splits)

lemma endCall_again:
  "effects (endCall (endCall m)) =
     effects (endCall m) @ (if onCallStateChange m then [CallStateChange ''ended''] else [])"
  by (simp add: endCall_effects [of "endCall m"] endCall_fields)

lemma endCall_released:
  "peerConnection m = None \<Longrightarrow> localStream m = None \<Longrightarrow> signalingSocket m = None \<Longrightarrow>
     endCall m = updateCallState ''ended'' m"
  by (simp add: endCall_def close_signalingSocket_def stop_localStream_def
      close_peerConnection_def sendSignalingMessage_def)

text \<open>
  Claim C6 (teardown completeness). On a session with a signaling socket in state \<open>OPEN\<close>,
  a peer connection and a local stream, one call of \<open>endCall\<close> sends the hangup message,
  closes the peer connection, stops every track of the local stream, closes the socket, in
  that order, and then notifies \<open>'ended'\<close> if a subscriber is installed. Afterwards every
  track of the stream is in state \<open>Ended\<close> and the manager holds no peer connection, no
  local stream and no socket. (The \<open>remoteStream\<close> field is not cleared by \<open>endCall\<close>; the
  claim does not list it.)
\<close>

theorem endCall_teardown:
  "signalingSocket m = Some ws \<Longrightarrow> readyState ws = OPEN \<Longrightarrow> peerConnection m = Some pc \<Longrightarrow>
   localStream m = Some ts \<Longrightarrow>
     effects (endCall m) =
       effects m
       @ [SocketSend (JObj [(''type'', JStr ''hangup''), (''hangup'', JObj [])])]
       @ [PeerConnectionClose]
       @ map TrackStop ts
       @ [SocketClose]
       @ (if onCallStateChange m then [CallStateChange ''ended''] else [])
     \<and> (\<forall>t \<in> set ts. track_readyState (tracks (endCall m) t) = Ended)
     \<and> peerConnection (endCall m) = None
     \<and> localStream (endCall m) = None
     \<and> signalingSocket (endCall m) = None"
  by (simp add: endCall_effects endCall_fields endCall_stops hangup_message)

text \<open>
  The connected sample call satisfies the hypotheses; its two live tracks end stopped.
\<close>

theorem endCall_teardown_witness:
  "signalingSocket connected_call = Some \<lparr>url = ''/ws/call/sess-1/'', readyState = OPEN\<rparr>
   \<and> localStream connected_call = Some [0, 1]
   \<and> peerConnection connected_call \<noteq> None
   \<and> effects (endCall connected_call) =
       effects connected_call
       @ [SocketSend (JObj [(''type'', JStr ''hangup''), (''hangup'', JObj [])]),
          PeerConnectionClose, TrackStop 0, TrackStop 1, SocketClose, CallStateChange ''ended'']
   \<and> track_readyState (tracks (endCall connected_call) 0) = Ended
   \<and> track_readyState (tracks (endCall connected_call) 1) = Ended
   \<and> track_readyState (tracks connected_call 0) = Live
   \<and> track_readyState (tracks connected_call 1) = Live
   \<and> peerConnection (endCall connected_call) = None
   \<and> localStream (endCall connected_call) = None
   \<and> signalingSocket (endCall connected_call) = None"
proof -
  have sock: "signalingSocket connected_call = Some \<lparr>url = ''/ws/call/sess-1/'', readyState = OPEN\<rparr>"
    by (simp add: connected_call_eq)
  have op: "readyState \<lparr>url = ''/ws/call/sess-1/'', readyState = OPEN\<rparr> = OPEN"
    by simp
  have pc: "peerConnection connected_call =
      Some \<lparr>connectionState = ''connected'', signalingState = ''stable'',
            localDescription = Some \<lparr>sdp = ''v=0 o=callee'', sd_type = ''answer''\<rparr>,
            remoteDescription = Some sample_offer, remoteCandidates = [], senders = [0, 1]\<rparr>"
    by (simp add: connected_call_eq)
  have ls: "localStream connected_call = Some [0, 1]"
    by (simp add: connected_call_eq)
  have sub: "onCallStateChange connected_call" "track_readyState (tracks connected_call 0) = Live"
    "track_readyState (tracks connected_call 1) = Live"
    by (simp_all add: connected_call_eq)
  show ?thesis
    using endCall_teardown [OF sock op pc ls] sock pc ls sub by simp
qed

text \<open>
  Claim C1 (idempotent hangup). The claim asks for exactly one \<open>'ended'\<close> notification and
  exactly one teardown when \<open>endCall\<close> runs twice, or once locally and once for a received
  hangup message. On the connected sample call the teardown happens once (one hangup
  message, one close of the peer connection, one stop per track, one close of the socket),
  but \<open>'ended'\<close> is delivered twice, on both paths: \<open>updateCallState('ended')\<close> is outside
  the guards of \<open>endCall\<close>.
\<close>

theorem endCall_twice_notifies_twice:
  "effects (endCall (endCall connected_call)) =
     effects connected_call
     @ [SocketSend (JObj [(''type'', JStr ''hangup''), (''hangup'', JObj [])]),
        PeerConnectionClose, TrackStop 0, TrackStop 1, SocketClose,
        CallStateChange ''ended'', CallStateChange ''ended'']
   \<and> handleSignalingMessage browser (signaling_message ''hangup'' (JObj [])) (endCall connected_call)
       = Normal (endCall (endCall connected_call))
   \<and> delivered (effects (endCall (endCall connected_call))) =
       delivered (effects connected_call) @ [''ended'', ''ended'']"
proof -
  have e1: "effects (endCall connected_call) =
     effects connected_call
     @ [SocketSend (JObj [(''type'', JStr ''hangup''), (''hangup'', JObj [])]),
        PeerConnectionClose, TrackStop 0, TrackStop 1, SocketClose, CallStateChange ''ended'']"
    by (simp add: endCall_effects hangup_message connected_call_eq)
  have e2: "effects (endCall (endCall connected_call)) =
      effects (endCall connected_call) @ [CallStateChange ''ended'']"
  proof -
    have "onCallStateChange connected_call" by (simp add: connected_call_eq)
    then show ?thesis by (simp add: endCall_again)
  qed
  have h: "handleSignalingMessage browser (signaling_message ''hangup'' (JObj [])) (endCall connected_call)
       = Normal (endCall (endCall connected_call))"
    by (simp add: handleSignalingMessage_def signaling_message_def handleHangup_def catch_log_def)
  have d: "delivered (effects connected_call) = [''connecting'', ''connected'']"
    by (simp add: connected_call_eq)
  show ?thesis using e1 e2 h d by (simp add: delivered_append)
qed

text \<open>
  With the subscriber the repository installs, the repeated notification does not stop at
  two: \<open>VideoCallUI.onCallStateChange('ended')\<close> calls \<open>VideoCallUI.endCall\<close>, which calls
  the manager's \<open>endCall\<close> again because \<open>this.callManager\<close> is cleared only after that
  call returns. Whatever the number of stack frames, the call runs out of them.
\<close>

lemma VideoCallUI_endCall_overflow:
  "callManager ui \<Longrightarrow> onCallStateChange m \<Longrightarrow> VideoCallUI_endCall n ui m = None"
proof (induction n arbitrary: ui m)
  case 0
  show ?case by simp
next
  case (Suc n)
  have "VideoCallUI_endCall n (ui\<lparr>callStatus := ''Call ended''\<rparr>) (endCall m) = None"
    using Suc.prems by (intro Suc.IH) (simp_all add: endCall_fields)
  then show ?case using Suc.prems by (simp add: endCall_fields)
qed

subsection \<open>Sending on a socket that is not open\<close>

text \<open>
  Claim C9 (implicit). When the signaling socket is absent or not in state \<open>OPEN\<close>,
  \<open>sendSignalingMessage\<close> returns the manager as it was: nothing is sent, nothing is logged
  or thrown, and nothing is kept for later (the socket opening afterwards sends nothing).
  An \<open>endCall\<close> in such a state adds no message to those sent, so its hangup never reaches
  the peer, and it drops the socket.
\<close>

theorem send_discarded_unless_open:
  "signalingSocket m = None \<or> (\<exists>ws. signalingSocket m = Some ws \<and> readyState ws \<noteq> OPEN) \<Longrightarrow>
     sendSignalingMessage type data m = m
     \<and> effects (step P Socket_open (sendSignalingMessage type data m)) = effects m
     \<and> sent (effects (endCall m)) = sent (effects m)
     \<and> signalingSocket (endCall m) = None"
  by (auto simp add: sendSignalingMessage_def endCall_sent endCall_fields)

text \<open>
  The initiator whose socket is still connecting hangs up: no message leaves.
\<close>

theorem send_discarded_unless_open_witness:
  "signalingSocket connecting_caller = Some \<lparr>url = ''/ws/call/sess-1/'', readyState = CONNECTING\<rparr>
   \<and> sendSignalingMessage ''hangup'' (JObj []) connecting_caller = connecting_caller
   \<and> effects (step browser Socket_open (sendSignalingMessage ''hangup'' (JObj []) connecting_caller))
       = effects connecting_caller
   \<and> sent (effects (endCall connecting_caller)) = []
   \<and> signalingSocket (endCall connecting_caller) = None"
proof -
  have sock: "signalingSocket connecting_caller =
      Some \<lparr>url = ''/ws/call/sess-1/'', readyState = CONNECTING\<rparr>"
    by (simp add: connecting_caller_eq)
  have hyp: "signalingSocket connecting_caller = None
      \<or> (\<exists>ws. signalingSocket connecting_caller = Some ws \<and> readyState ws \<noteq> OPEN)"
    using sock by simp
  have none: "sent (effects connecting_caller) = []"
    by (simp add: connecting_caller_eq)
  show ?thesis
    using send_discarded_unless_open [OF hyp, of "''hangup''" "JObj []" browser] sock none by simp
qed

subsection \<open>Controls after teardown\<close>

lemma toggle_no_stream:
  "localStream m = None \<Longrightarrow> toggleAudio m = (False, m) \<and> toggleVideo m = (False, m)"
  by (simp add: toggleAudio_def toggleVideo_def)

text \<open>
  Claim C10 (implicit). Once the peer connection, the local stream and the socket are null,
  \<open>toggleAudio\<close> and \<open>toggleVideo\<close> return \<open>false\<close> and leave the manager as it was, and
  \<open>endCall\<close> skips each teardown step: it does nothing but notify \<open>'ended'\<close> (if a subscriber
  is installed); no track is touched and nothing faults.
\<close>

theorem safe_after_teardown:
  "peerConnection m = None \<Longrightarrow> localStream m = None \<Longrightarrow> signalingSocket m = None \<Longrightarrow>
     toggleAudio m = (False, m)
     \<and> toggleVideo m = (False, m)
     \<and> endCall m = updateCallState ''ended'' m
     \<and> effects (endCall m) = effects m @ (if onCallStateChange m then [CallStateChange ''ended''] else [])
     \<and> tracks (endCall m) = tracks m"
  by (simp add: toggle_no_stream endCall_released updateCallState_def)

text \<open>
  The state \<open>endCall\<close> leaves behind is such a state.
\<close>

theorem safe_after_teardown_witness:
  "peerConnection (endCall connected_call) = None
   \<and> localStream (endCall connected_call) = None
   \<and> signalingSocket (endCall connected_call) = None
   \<and> toggleAudio (endCall connected_call) = (False, endCall connected_call)
   \<and> toggleVideo (endCall connected_call) = (False, endCall connected_call)
   \<and> effects (endCall (endCall connected_call)) = effects (endCall connected_call) @ [CallStateChange ''ended'']
   \<and> tracks (endCall (endCall connected_call)) = tracks (endCall connected_call)"
proof -
  have sub: "onCallStateChange (endCall connected_call)"
    by (simp add: endCall_fields connected_call_eq)
  show ?thesis
    using safe_after_teardown [OF endCall_fields(1) endCall_fields(2) endCall_fields(3), of connected_call]
      sub
    by (simp add: endCall_fields updateCallState_def)
qed

subsection \<open>Muting and unmuting\<close>

lemma flip_enabled_twice: "flip_enabled t (flip_enabled t m) = m"
  by (simp add: flip_enabled_def)

lemma flip_enabled_fields:
  "localStream (flip_enabled t m) = localStream m"
  "peerConnection (flip_enabled t m) = peerConnection m"
  "signalingSocket (flip_enabled t m) = signalingSocket m"
  "effects (flip_enabled t m) = effects m"
  "kind (tracks (flip_enabled t m) u) = kind (tracks m u)"
  "track_readyState (tracks (flip_enabled t m) u) = track_readyState (tracks m u)"
  "enabled (tracks (flip_enabled t m) t) = (\<not> enabled (tracks m t))"
  "u \<noteq> t \<Longrightarrow> tracks (flip_enabled t m) u = tracks m u"
  by (simp_all add: flip_enabled_def)

lemma getAudioTracks_flip: "getAudioTracks (flip_enabled t m) ts = getAudioTracks m ts"
  by (simp add: getAudioTracks_def flip_enabled_fields)

lemma getVideoTracks_flip: "getVideoTracks (flip_enabled t m) ts = getVideoTracks m ts"
  by (simp add: getVideoTracks_def flip_enabled_fields)

lemma toggleAudio_some:
  "localStream m = Some ts \<Longrightarrow> getAudioTracks m ts = a # rest \<Longrightarrow>
     toggleAudio m = (\<not> enabled (tracks m a), flip_enabled a m)"
  by (simp add: toggleAudio_def flip_enabled_fields)

lemma toggleVideo_some:
  "localStream m = Some ts \<Longrightarrow> getVideoTracks m ts = v # rest \<Longrightarrow>
     toggleVideo m = (\<not> enabled (tracks m v), flip_enabled v m)"
  by (simp add: toggleVideo_def flip_enabled_fields)

lemma toggleAudio_twice: "snd (toggleAudio (snd (toggleAudio m))) = m"
proof (cases "localStream m")
  case None
  then show ?thesis by (simp add: toggleAudio_def)
next
  case (Some ts)
  show ?thesis
  proof (cases "getAudioTracks m ts")
    case Nil
    then show ?thesis using Some by (simp add: toggleAudio_def)
  next
    case (Cons a rest)
    have 1: "toggleAudio m = (\<not> enabled (tracks m a), flip_enabled a m)"
      using Some Cons by (rule toggleAudio_some)
    have 2: "toggleAudio (flip_enabled a m) = (\<not> enabled (tracks (flip_enabled a m) a), flip_enabled a (flip_enabled a m))"
      using Some Cons by (intro toggleAudio_some) (simp_all add: flip_enabled_fields getAudioTracks_flip)
    show ?thesis using 1 2 by (simp add: flip_enabled_twice)
  qed
qed

lemma toggleVideo_twice: "snd (toggleVideo (snd (toggleVideo m))) = m"
proof (cases "localStream m")
  case None
  then show ?thesis by (simp add: toggleVideo_def)
next
  case (Some ts)
  show ?thesis
  proof (cases "getVideoTracks m ts")
    case Nil
    then show ?thesis using Some by (simp add: toggleVideo_def)
  next
    case (Cons v rest)
    have 1: "toggleVideo m = (\<not> enabled (tracks m v), flip_enabled v m)"
      using Some Cons by (rule toggleVideo_some)
    have 2: "toggleVideo (flip_enabled v m) = (\<not> enabled (tracks (flip_enabled v m) v), flip_enabled v (flip_enabled v m))"
      using Some Cons by (intro toggleVideo_some) (simp_all add: flip_enabled_fields getVideoTracks_flip)
    show ?thesis using 1 2 by (simp add: flip_enabled_twice)
  qed
qed

lemma toggle_keeps:
  "localStream (snd (toggleAudio m)) = localStream m"
  "peerConnection (snd (toggleAudio m)) = peerConnection m"
  "effects (snd (toggleAudio m)) = effects m"
  "localStream (snd (toggleVideo m)) = localStream m"
  "peerConnection (snd (toggleVideo m)) = peerConnection m"
  "effects (snd (toggleVideo m)) = effects m"
  by (simp_all add: toggleAudio_def toggleVideo_def flip_enabled_fields split: option.splits list.splits)

text \<open>
  Claim C7 (media toggles). When the local stream has an audio track, \<open>toggleAudio\<close>
  negates the \<open>enabled\<close> flag of the first one, returns the new value of the flag and leaves
  every other track as it was; likewise \<open>toggleVideo\<close> for the first video track. With no
  local stream, or none of that kind in it, the call returns \<open>false\<close> and the manager is
  unchanged. In every case the stream keeps its list of tracks, the peer connection (and so
  its senders) is untouched and no effect is produced; two calls in a row give back the
  manager the first one started from.
\<close>

theorem toggle_flips_enabled:
  "(localStream m = Some ts \<and> getAudioTracks m ts = a # rest \<longrightarrow>
      fst (toggleAudio m) = (\<not> enabled (tracks m a))
      \<and> enabled (tracks (snd (toggleAudio m)) a) = (\<not> enabled (tracks m a))
      \<and> (\<forall>u. u \<noteq> a \<longrightarrow> tracks (snd (toggleAudio m)) u = tracks m u))
   \<and> (localStream m = Some ts \<and> getVideoTracks m ts = v # rest' \<longrightarrow>
      fst (toggleVideo m) = (\<not> enabled (tracks m v))
      \<and> enabled (tracks (snd (toggleVideo m)) v) = (\<not> enabled (tracks m v))
      \<and> (\<forall>u. u \<noteq> v \<longrightarrow> tracks (snd (toggleVideo m)) u = tracks m u))
   \<and> (localStream m = None \<or> (localStream m = Some ts \<and> getAudioTracks m ts = []) \<longrightarrow>
      toggleAudio m = (False, m))
   \<and> (localStream m = None \<or> (localStream m = Some ts \<and> getVideoTracks m ts = []) \<longrightarrow>
      toggleVideo m = (False, m))
   \<and> localStream (snd (toggleAudio m)) = localStream m
   \<and> peerConnection (snd (toggleAudio m)) = peerConnection m
   \<and> effects (snd (toggleAudio m)) = effects m
   \<and> localStream (snd (toggleVideo m)) = localStream m
   \<and> peerConnection (snd (toggleVideo m)) = peerConnection m
   \<and> effects (snd (toggleVideo m)) = effects m
   \<and> snd (toggleAudio (snd (toggleAudio m))) = m
   \<and> snd (toggleVideo (snd (toggleVideo m))) = m"
proof -
  have A: "localStream m = Some ts \<and> getAudioTracks m ts = a # rest \<longrightarrow>
      fst (toggleAudio m) = (\<not> enabled (tracks m a))
      \<and> enabled (tracks (snd (toggleAudio m)) a) = (\<not> enabled (tracks m a))
      \<and> (\<forall>u. u \<noteq> a \<longrightarrow> tracks (snd (toggleAudio m)) u = tracks m u)"
    by (simp add: toggleAudio_some flip_enabled_fields)
  have V: "localStream m = Some ts \<and> getVideoTracks m ts = v # rest' \<longrightarrow>
      fst (toggleVideo m) = (\<not> enabled (tracks m v))
      \<and> enabled (tracks (snd (toggleVideo m)) v) = (\<not> enabled (tracks m v))
      \<and> (\<forall>u. u \<noteq> v \<longrightarrow> tracks (snd (toggleVideo m)) u = tracks m u)"
    by (simp add: toggleVideo_some flip_enabled_fields)
  have NA: "localStream m = None \<or> (localStream m = Some ts \<and> getAudioTracks m ts = []) \<longrightarrow>
      toggleAudio m = (False, m)"
    by (auto simp add: toggleAudio_def)
  have NV: "localStream m = None \<or> (localStream m = Some ts \<and> getVideoTracks m ts = []) \<longrightarrow>
      toggleVideo m = (False, m)"
    by (auto simp add: toggleVideo_def)
  show ?thesis
    using A V NA NV by (simp only: toggle_keeps toggleAudio_twice toggleVideo_twice simp_thms)
qed

text \<open>
  The connected video call (an audio and a video track, both enabled), the voice call (no
  video track) and the manager before any call (no stream).
\<close>

theorem toggle_flips_enabled_witness:
  "localStream connected_call = Some [0, 1]
   \<and> getAudioTracks connected_call [0, 1] = [0]
   \<and> getVideoTracks connected_call [0, 1] = [1]
   \<and> enabled (tracks connected_call 0)
   \<and> enabled (tracks connected_call 1)
   \<and> fst (toggleAudio connected_call) = False
   \<and> enabled (tracks (snd (toggleAudio connected_call)) 0) = False
   \<and> tracks (snd (toggleAudio connected_call)) 1 = tracks connected_call 1
   \<and> fst (toggleVideo connected_call) = False
   \<and> enabled (tracks (snd (toggleVideo connected_call)) 1) = False
   \<and> tracks (snd (toggleVideo connected_call)) 0 = tracks connected_call 0
   \<and> localStream (snd (toggleAudio connected_call)) = Some [0, 1]
   \<and> peerConnection (snd (toggleAudio connected_call)) = peerConnection connected_call
   \<and> snd (toggleAudio (snd (toggleAudio connected_call))) = connected_call
   \<and> snd (toggleVideo (snd (toggleVideo connected_call))) = connected_call
   \<and> localStream connecting_caller = Some [0]
   \<and> getVideoTracks connecting_caller [0] = []
   \<and> toggleVideo connecting_caller = (False, connecting_caller)
   \<and> localStream subscribed = None
   \<and> toggleAudio subscribed = (False, subscribed)
   \<and> toggleVideo subscribed = (False, subscribed)"
proof -
  have c: "localStream connected_call = Some [0, 1]"
    "getAudioTracks connected_call [0, 1] = [0]"
    "getVideoTracks connected_call [0, 1] = [1]"
    "enabled (tracks connected_call 0)" "enabled (tracks connected_call 1)"
    by (simp_all add: connected_call_eq getAudioTracks_def getVideoTracks_def)
  have v: "localStream connecting_caller = Some [0]" "getVideoTracks connecting_caller [0] = []"
    by (simp_all add: connecting_caller_eq getVideoTracks_def)
  have s: "localStream subscribed = None"
    by (simp add: subscribed_def constructor_def)
  show ?thesis
    using toggle_flips_enabled [of connected_call "[0, 1]" 0 "[]" 1 "[]"]
      toggle_flips_enabled [of connecting_caller "[0]" 0 "[]" 0 "[]"]
      toggle_flips_enabled [of subscribed "[]" 0 "[]" 0 "[]"]
      c v s
    by simp
qed

subsection \<open>ICE candidates\<close>

lemma sent_ice_candidate_ignored:
  "handleSignalingMessage P
     (JSON_wire (signaling_message ''ice_candidate'' (JObj [(''candidate'', c)]))) m = Normal m"
  by (simp add: handleSignalingMessage_def signaling_message_def handleIceCandidate_def
      catch_log_def)

text \<open>
  Claim C2 (ICE round trip). The claim is that the message sent for a local candidate, once
  handled by the peer, applies that candidate to the peer's connection. \<open>onicecandidate\<close>
  sends \<open>{type: 'ice_candidate', ice_candidate: {candidate: c}}\<close>, while
  \<open>handleSignalingMessage\<close> passes \<open>data.candidate\<close>, which that message does not have, so the
  handler receives \<open>undefined\<close> and ignores it. On the connected sample call: the message
  sent, the receiving manager unchanged by it, and the same candidate applied when it is
  handed to \<open>handleIceCandidate\<close> directly. (The \<open>offer\<close> and \<open>answer\<close> branches read
  \<open>data.offer\<close> and \<open>data.answer\<close>, the keys the sender writes.)
\<close>

theorem ice_candidate_round_trip_lost:
  "effects (onicecandidate sample_candidate connected_call) =
     effects connected_call
     @ [SocketSend (JObj [(''type'', JStr ''ice_candidate''),
                          (''ice_candidate'', JObj [(''candidate'', sample_candidate)])])]
   \<and> handleSignalingMessage browser
        (JObj [(''type'', JStr ''ice_candidate''),
               (''ice_candidate'', JObj [(''candidate'', sample_candidate)])])
        connected_call
      = Normal connected_call
   \<and> (case handleIceCandidate browser sample_candidate connected_call of
        Normal m' \<Rightarrow> map_option remoteCandidates (peerConnection m') = Some [sample_candidate]
      | Throw e m' \<Rightarrow> False)"
proof -
  have w: "JSON_wire (signaling_message ''ice_candidate'' (JObj [(''candidate'', sample_candidate)]))
      = JObj [(''type'', JStr ''ice_candidate''),
              (''ice_candidate'', JObj [(''candidate'', sample_candidate)])]"
    by (simp add: signaling_message_def sample_candidate_def)
  have s: "effects (onicecandidate sample_candidate connected_call) =
     effects connected_call
     @ [SocketSend (JSON_wire (signaling_message ''ice_candidate'' (JObj [(''candidate'', sample_candidate)])))]"
    by (simp add: onicecandidate_def sendSignalingMessage_def connected_call_eq)
       (simp add: sample_candidate_def)
  have r: "handleSignalingMessage browser
        (JSON_wire (signaling_message ''ice_candidate'' (JObj [(''candidate'', sample_candidate)])))
        connected_call = Normal connected_call"
    by (rule sent_ice_candidate_ignored)
  have d: "(case handleIceCandidate browser sample_candidate connected_call of
        Normal m' \<Rightarrow> map_option remoteCandidates (peerConnection m') = Some [sample_candidate]
      | Throw e m' \<Rightarrow> False)"
    by (simp add: handleIceCandidate_def catch_log_def connected_call_eq browser_def)
       (simp add: sample_candidate_def)
  show ?thesis using s r d unfolding w by simp
qed

text \<open>
  Claim C8 (remote candidates do not abort). A payload that JavaScript takes for false
  (\<open>undefined\<close>, \<open>null\<close>, the empty string) is ignored: the manager is unchanged, nothing is
  logged, nothing is thrown; this holds for \<open>handleIceCandidate\<close> and for a message of type
  \<open>ice_candidate\<close> carrying such a \<open>candidate\<close>. A candidate the platform refuses leaves the
  manager as it was except for one \<open>console.error\<close> line: the handler returns normally, the
  peer connection, streams and socket stay, nothing is sent and no state is notified; the
  same holds when the manager has no peer connection. (An object, even an empty one, is not
  false in JavaScript: it is handed to the platform.)
\<close>

theorem ice_candidate_non_aborting:
  "(\<not> truthy c \<longrightarrow> handleIceCandidate P c m = Normal m)
   \<and> (get_prop data ''type'' = Inr (JStr ''ice_candidate'') \<and> get_prop data ''candidate'' = Inr c
        \<and> \<not> truthy c \<longrightarrow>
      handleSignalingMessage P data m = Normal m)
   \<and> (truthy c \<and> peerConnection m = Some pc \<and> addIceCandidateP P pc c = Inl e \<longrightarrow>
      handleIceCandidate P c m = Normal (m\<lparr>effects := effects m @ [ConsoleError ''Error handling ICE candidate:'']\<rparr>))
   \<and> (truthy c \<and> peerConnection m = None \<longrightarrow>
      handleIceCandidate P c m = Normal (m\<lparr>effects := effects m @ [ConsoleError ''Error handling ICE candidate:'']\<rparr>))
   \<and> (get_prop data ''type'' = Inr (JStr ''ice_candidate'') \<and> get_prop data ''candidate'' = Inr c
        \<and> truthy c \<and> peerConnection m = Some pc \<and> addIceCandidateP P pc c = Inl e \<longrightarrow>
      handleSignalingMessage P data m =
        Normal (m\<lparr>effects := effects m @ [ConsoleError ''Error handling ICE candidate:'']\<rparr>))"
  by (simp add: handleSignalingMessage_def handleIceCandidate_def catch_log_def console_error_def)

text \<open>
  A \<open>null\<close> and an empty candidate on the connected call, a candidate reaching the
  responder before any remote description, which the sample browser refuses, and a candidate
  reaching a manager that has no peer connection.
\<close>

theorem ice_candidate_non_aborting_witness:
  "handleSignalingMessage browser (JObj [(''type'', JStr ''ice_candidate''), (''candidate'', JNull)])
     connected_call = Normal connected_call
   \<and> handleSignalingMessage browser (JObj [(''type'', JStr ''ice_candidate''), (''candidate'', JStr '''')])
     connected_call = Normal connected_call
   \<and> handleIceCandidate browser JUndefined connected_call = Normal connected_call
   \<and> addIceCandidateP browser
        \<lparr>connectionState = ''new'', signalingState = ''stable'', localDescription = None,
         remoteDescription = None, remoteCandidates = [], senders = [0, 1]\<rparr> sample_candidate
       = Inl InvalidStateError
   \<and> handleSignalingMessage browser
        (JObj [(''type'', JStr ''ice_candidate''), (''candidate'', sample_candidate)]) waiting_responder
       = Normal (waiting_responder\<lparr>effects := effects waiting_responder
                   @ [ConsoleError ''Error handling ICE candidate:'']\<rparr>)
   \<and> peerConnection subscribed = None
   \<and> handleIceCandidate browser sample_candidate subscribed
       = Normal (subscribed\<lparr>effects := effects subscribed
                   @ [ConsoleError ''Error handling ICE candidate:'']\<rparr>)"
proof -
  let ?null = "JObj [(''type'', JStr ''ice_candidate''), (''candidate'', JNull)]"
  let ?empty = "JObj [(''type'', JStr ''ice_candidate''), (''candidate'', JStr '''')]"
  let ?cand = "JObj [(''type'', JStr ''ice_candidate''), (''candidate'', sample_candidate)]"
  let ?pc = "\<lparr>connectionState = ''new'', signalingState = ''stable'', localDescription = None,
         remoteDescription = None, remoteCandidates = [], senders = [0, 1]\<rparr>"
  have t: "get_prop ?null ''type'' = Inr (JStr ''ice_candidate'')"
    "get_prop ?empty ''type'' = Inr (JStr ''ice_candidate'')"
    "get_prop ?cand ''type'' = Inr (JStr ''ice_candidate'')"
    by simp_all
  have c: "get_prop ?null ''candidate'' = Inr JNull"
    "get_prop ?empty ''candidate'' = Inr (JStr '''')"
    "get_prop ?cand ''candidate'' = Inr sample_candidate"
    by simp_all
  have f: "\<not> truthy JNull" "\<not> truthy (JStr '''')" "\<not> truthy JUndefined" "truthy sample_candidate"
    by (simp_all add: sample_candidate_def)
  have pc: "peerConnection waiting_responder = Some ?pc"
    by (simp add: waiting_responder_eq)
  have rej: "addIceCandidateP browser ?pc sample_candidate = Inl InvalidStateError"
    by (simp add: browser_def)
  have no_pc: "peerConnection subscribed = None"
    by (simp add: subscribed_def constructor_def)
  show ?thesis
    using ice_candidate_non_aborting [of JNull browser connected_call ?null]
      ice_candidate_non_aborting [of "JStr ''''" browser connected_call ?empty]
      ice_candidate_non_aborting [of JUndefined browser connected_call]
      ice_candidate_non_aborting [of sample_candidate browser waiting_responder ?cand ?pc InvalidStateError]
      ice_candidate_non_aborting [of sample_candidate browser subscribed]
      t c f pc rej no_pc
    by simp
qed

subsection \<open>What is delivered to the subscriber\<close>

lemma updateCallState_delivered:
  "delivered (effects (updateCallState s m)) =
     delivered (effects m) @ (if onCallStateChange m then [s] else [])"
  by (simp add: updateCallState_def delivered_append)

lemma sendSignalingMessage_delivered:
  "delivered (effects (sendSignalingMessage type data m)) = delivered (effects m)"
  by (simp add: sendSignalingMessage_def delivered_append split: option.splits)

lemma sendSignalingMessage_sub:
  "onCallStateChange (sendSignalingMessage type data m) = onCallStateChange m"
  by (simp add: sendSignalingMessage_def split: option.splits)

lemma getUserMedia_delivered:
  "delivered (effects (state_of (getUserMedia P m))) = delivered (effects m)"
  "onCallStateChange (state_of (getUserMedia P m)) = onCallStateChange m"
  by (simp_all add: getUserMedia_def console_error_def delivered_append Let_def split: sum.splits)

lemma createPeerConnection_delivered:
  "delivered (effects (state_of (createPeerConnection m))) = delivered (effects m)"
  "onCallStateChange (state_of (createPeerConnection m)) = onCallStateChange m"
  by (simp_all add: createPeerConnection_def Let_def split: option.splits)

lemma setupSignaling_delivered:
  "delivered (effects (setupSignaling m)) = delivered (effects m)"
  "onCallStateChange (setupSignaling m) = onCallStateChange m"
  by (simp_all add: setupSignaling_def)

lemma createOffer_delivered:
  "delivered (effects (state_of (createOffer P m))) = delivered (effects m)"
  "onCallStateChange (state_of (createOffer P m)) = onCallStateChange m"
  by (simp_all add: createOffer_def catch_rethrow_def console_error_fields
      sendSignalingMessage_delivered sendSignalingMessage_sub split: option.splits sum.splits)

lemma createAnswer_delivered:
  "delivered (effects (state_of (createAnswer P m))) = delivered (effects m)"
  "onCallStateChange (state_of (createAnswer P m)) = onCallStateChange m"
  by (simp_all add: createAnswer_def catch_rethrow_def console_error_fields
      sendSignalingMessage_delivered sendSignalingMessage_sub split: option.splits sum.splits)

lemma state_of_catch_log:
  "delivered (effects (state_of (catch_log msg r))) = delivered (effects (state_of r))"
  by (cases r) (simp_all add: catch_log_def console_error_fields)

lemma handleOffer_delivered:
  "delivered (effects (state_of (handleOffer P offer m))) = delivered (effects m)"
  by (simp add: handleOffer_def state_of_catch_log createAnswer_delivered
      split: option.splits sum.splits)

lemma handleAnswer_delivered:
  "delivered (effects (state_of (handleAnswer P answer m))) = delivered (effects m)"
  by (simp add: handleAnswer_def state_of_catch_log split: option.splits sum.splits)

lemma handleIceCandidate_delivered:
  "delivered (effects (state_of (handleIceCandidate P c m))) = delivered (effects m)"
  by (simp add: handleIceCandidate_def state_of_catch_log split: option.splits sum.splits)

lemma endCall_delivered:
  "delivered (effects (endCall m)) =
     delivered (effects m) @ (if onCallStateChange m then [''ended''] else [])"
  by (simp add: endCall_effects delivered_append delivered_TrackStop split: option.splits)

lemma handleSignalingMessage_delivered:
  "set (delivered (effects (state_of (handleSignalingMessage P data m))))
     \<subseteq> set (delivered (effects m)) \<union> {''ended''}"
  by (auto simp add: handleSignalingMessage_def state_of_catch_log handleOffer_delivered
      handleAnswer_delivered handleIceCandidate_delivered handleHangup_def endCall_delivered
      split: sum.splits)

lemma initializeCall_delivered:
  "set (delivered (effects (state_of (initializeCall P sid ctype isInit m))))
     \<subseteq> set (delivered (effects m)) \<union> {''connecting'', ''failed''}"
proof -
  let ?m0 = "m\<lparr>callSessionId := Some sid, callType := ctype, isInitiator := isInit\<rparr>"
  have 0: "delivered (effects ?m0) = delivered (effects m)" by simp
  let ?g = "getUserMedia P ?m0"
  have g: "delivered (effects (state_of ?g)) = delivered (effects m)"
    using getUserMedia_delivered(1) [of P ?m0] by simp
  show ?thesis
  proof (cases ?g)
    case (Throw e m1)
    then show ?thesis using g
      by (auto simp add: initializeCall_def updateCallState_delivered console_error_fields)
  next
    case (Normal m1)
    then have m1: "delivered (effects m1) = delivered (effects m)" using g by simp
    let ?c = "createPeerConnection m1"
    have c: "delivered (effects (state_of ?c)) = delivered (effects m)"
      using createPeerConnection_delivered(1) [of m1] m1 by simp
    show ?thesis
    proof (cases ?c)
      case (Throw e m2)
      then show ?thesis using Normal c
        by (auto simp add: initializeCall_def updateCallState_delivered console_error_fields)
    next
      case c2: (Normal m2)
      then have m2: "delivered (effects m2) = delivered (effects m)" using c by simp
      let ?o = "if isInit then createOffer P (setupSignaling m2) else Normal (setupSignaling m2)"
      have o: "delivered (effects (state_of ?o)) = delivered (effects m)"
        using m2 by (simp add: createOffer_delivered setupSignaling_delivered)
      show ?thesis
      proof (cases ?o)
        case (Throw e m3)
        then show ?thesis using Normal c2 o
          by (auto simp add: initializeCall_def updateCallState_delivered console_error_fields)
      next
        case o3: (Normal m3)
        then show ?thesis using Normal c2 o
          by (auto simp add: initializeCall_def updateCallState_delivered)
      qed
    qed
  qed
qed

lemma toggle_delivered:
  "delivered (effects (snd (toggleAudio m))) = delivered (effects m)"
  "delivered (effects (snd (toggleVideo m))) = delivered (effects m)"
  by (simp_all add: toggle_keeps)

lemma onicecandidate_delivered:
  "delivered (effects (onicecandidate c m)) = delivered (effects m)"
  by (simp add: onicecandidate_def sendSignalingMessage_delivered)

lemma onconnectionstatechange_delivered:
  "set (delivered (effects (state_of (onconnectionstatechange m))))
     \<subseteq> set (delivered (effects m)) \<union> {''connected'', ''disconnected'', ''ended''}"
  by (auto simp add: onconnectionstatechange_def updateCallState_delivered split: option.splits)

lemma ontrack_delivered: "delivered (effects (ontrack t m)) = delivered (effects m)"
  by (simp add: ontrack_def Let_def delivered_append)

lemma step_delivered:
  "set (delivered (effects (step P e m))) \<subseteq> set (delivered (effects m)) \<union> emitted_states"
proof (cases e)
  case (Call_initializeCall sid ctype isInit)
  then show ?thesis
    using initializeCall_delivered [of P sid ctype isInit m] by (auto simp add: emitted_states_def)
next
  case Call_endCall
  then show ?thesis by (auto simp add: endCall_delivered emitted_states_def)
next
  case (Socket_message data)
  then show ?thesis
    using handleSignalingMessage_delivered [of P data m] by (auto simp add: emitted_states_def)
next
  case Pc_connectionstatechange_stale
  then show ?thesis
    using onconnectionstatechange_delivered [of m] by (auto simp add: emitted_states_def)
next
  case (Pc_connectionstatechange s)
  show ?thesis
  proof (cases "peerConnection m")
    case None
    then show ?thesis using Pc_connectionstatechange by simp
  next
    case (Some pc)
    then show ?thesis
      using Pc_connectionstatechange
        onconnectionstatechange_delivered [of "m\<lparr>peerConnection := Some (pc\<lparr>connectionState := s\<rparr>)\<rparr>"]
      by (auto simp add: emitted_states_def)
  qed
qed (auto simp add: toggle_delivered onicecandidate_delivered ontrack_delivered split: option.splits)

lemma run_delivered:
  "set (delivered (effects (run P es m))) \<subseteq> set (delivered (effects m)) \<union> emitted_states"
proof (induction es arbitrary: m)
  case Nil
  show ?case by simp
next
  case (Cons e es)
  have "set (delivered (effects (run P es (step P e m))))
      \<subseteq> set (delivered (effects (step P e m))) \<union> emitted_states"
    by (rule Cons.IH)
  also have "\<dots> \<subseteq> (set (delivered (effects m)) \<union> emitted_states) \<union> emitted_states"
    using step_delivered [of P e m] by blast
  finally show ?case by auto
qed

text \<open>
  Claim C3 (state values), as amended. Whatever the platform does and whatever sequence of
  method calls, signaling messages and socket and connection events a new manager goes
  through, every value delivered to \<open>onCallStateChange\<close> is one of \<open>connecting\<close>,
  \<open>connected\<close>, \<open>disconnected\<close>, \<open>ended\<close>, \<open>failed\<close>.
\<close>

theorem delivered_states:
  "set (delivered (effects (run P es (constructor store)))) \<subseteq> emitted_states"
  using run_delivered [of P es "constructor store"] by (simp add: constructor_def)

text \<open>
  The claim as stated, with the set \<open>idle, connecting, ringing, connected, ended, failed\<close>,
  fails: when the connection of a connected call reports \<open>failed\<close>, the subscriber receives
  \<open>disconnected\<close>.
\<close>

theorem disconnected_delivered:
  "delivered (effects (run browser
      [Set_onCallStateChange True,
       Call_initializeCall ''sess-1'' ''video'' False,
       Socket_open,
       Socket_message (signaling_message ''offer'' sample_offer),
       Pc_connectionstatechange ''connected'',
       Pc_connectionstatechange ''failed'']
      (constructor no_tracks))) = [''connecting'', ''connected'', ''disconnected'']
   \<and> ''disconnected'' \<notin> CallState
   \<and> \<not> set (delivered (effects (run browser
      [Set_onCallStateChange True,
       Call_initializeCall ''sess-1'' ''video'' False,
       Socket_open,
       Socket_message (signaling_message ''offer'' sample_offer),
       Pc_connectionstatechange ''connected'',
       Pc_connectionstatechange ''failed'']
      (constructor no_tracks)))) \<subseteq> CallState"
  by (simp add: constructor_def initializeCall_def
      getUserMedia_def browser_def createPeerConnection_def setupSignaling_def
      updateCallState_def new_RTCPeerConnection_def addTrack_def handleSignalingMessage_def
      signaling_message_def sample_offer_def handleOffer_def createAnswer_def
      catch_log_def catch_rethrow_def sendSignalingMessage_def description_json_def
      onconnectionstatechange_def CallState_def)

subsection \<open>Descriptions out of order\<close>

text \<open>
  Claim C4 (out-of-order signaling), as amended. The manager does not check the order
  itself: it hands the description to the platform. When the platform refuses a remote
  description, \<open>handleAnswer\<close> and \<open>handleOffer\<close> log the error and return normally, with
  the manager otherwise unchanged; when the platform refuses \<open>createAnswer\<close>, the method
  logs the error and rethrows it, with the manager otherwise unchanged and no answer sent.
\<close>

theorem rejected_description_is_logged:
  "peerConnection m = Some pc \<Longrightarrow>
     (setRemoteDescriptionP P pc d = Inl e \<longrightarrow>
        handleAnswer P d m = Normal (m\<lparr>effects := effects m @ [ConsoleError ''Error handling answer:'']\<rparr>)
        \<and> handleOffer P d m = Normal (m\<lparr>effects := effects m @ [ConsoleError ''Error handling offer:'']\<rparr>))
     \<and> (createAnswerP P pc = Inl e \<longrightarrow>
        createAnswer P m = Throw e (m\<lparr>effects := effects m @ [ConsoleError ''Error creating answer:'']\<rparr>))"
  by (simp add: handleAnswer_def handleOffer_def createAnswer_def catch_log_def catch_rethrow_def
      console_error_def)

text \<open>
  A responder that has received no offer, on the sample browser: an answer is refused, and
  so is \<open>createAnswer\<close>.
\<close>

theorem rejected_description_is_logged_witness:
  "setRemoteDescriptionP browser
      \<lparr>connectionState = ''new'', signalingState = ''stable'', localDescription = None,
       remoteDescription = None, remoteCandidates = [], senders = [0, 1]\<rparr> sample_answer
     = Inl InvalidStateError
   \<and> createAnswerP browser
      \<lparr>connectionState = ''new'', signalingState = ''stable'', localDescription = None,
       remoteDescription = None, remoteCandidates = [], senders = [0, 1]\<rparr>
     = Inl InvalidStateError
   \<and> handleAnswer browser sample_answer waiting_responder =
       Normal (waiting_responder\<lparr>effects := effects waiting_responder
                 @ [ConsoleError ''Error handling answer:'']\<rparr>)
   \<and> handleOffer browser sample_answer waiting_responder =
       Normal (waiting_responder\<lparr>effects := effects waiting_responder
                 @ [ConsoleError ''Error handling offer:'']\<rparr>)
   \<and> createAnswer browser waiting_responder =
       Throw InvalidStateError
         (waiting_responder\<lparr>effects := effects waiting_responder
            @ [ConsoleError ''Error creating answer:'']\<rparr>)"
proof -
  let ?pc = "\<lparr>connectionState = ''new'', signalingState = ''stable'', localDescription = None,
       remoteDescription = None, remoteCandidates = [], senders = [0, 1]\<rparr>"
  have pc: "peerConnection waiting_responder = Some ?pc"
    by (simp add: waiting_responder_eq)
  have r: "setRemoteDescriptionP browser ?pc sample_answer = Inl InvalidStateError"
    by (simp add: browser_def sample_answer_def)
  have a: "createAnswerP browser ?pc = Inl InvalidStateError"
    by (simp add: browser_def)
  show ?thesis
    using rejected_description_is_logged [OF pc, of browser sample_answer InvalidStateError] r a
    by simp
qed

text \<open>
  The claim as stated fails for an answer that arrives before any offer was sent: the
  platform refuses it with \<open>InvalidStateError\<close>, and the handler returns normally.
\<close>

theorem early_answer_not_thrown:
  "handleAnswer browser sample_answer waiting_responder =
     Normal (waiting_responder\<lparr>effects := effects waiting_responder
               @ [ConsoleError ''Error handling answer:'']\<rparr>)
   \<and> handleSignalingMessage browser (signaling_message ''answer'' sample_answer) waiting_responder =
     Normal (waiting_responder\<lparr>effects := effects waiting_responder
               @ [ConsoleError ''Error handling answer:'']\<rparr>)
   \<and> handleAnswer browser sample_answer waiting_responder \<noteq> Throw InvalidStateError waiting_responder"
proof -
  have h: "handleAnswer browser sample_answer waiting_responder =
     Normal (waiting_responder\<lparr>effects := effects waiting_responder
               @ [ConsoleError ''Error handling answer:'']\<rparr>)"
    by (simp add: handleAnswer_def catch_log_def console_error_def waiting_responder_eq browser_def
        sample_answer_def)
  have g: "get_prop (signaling_message ''answer'' sample_answer) ''type'' = Inr (JStr ''answer'')"
    "get_prop (signaling_message ''answer'' sample_answer) ''answer'' = Inr sample_answer"
    by (simp_all add: signaling_message_def)
  have s: "handleSignalingMessage browser (signaling_message ''answer'' sample_answer) waiting_responder
     = handleAnswer browser sample_answer waiting_responder"
    unfolding handleSignalingMessage_def g by (simp add: h catch_log_def)
  show ?thesis using s h by simp
qed

subsection \<open>Refused media\<close>

text \<open>
  Claim C5 (media refused), as amended. When \<open>getUserMedia\<close> is rejected, for whatever
  reason, \<open>initializeCall\<close> notifies the bare state \<open>'failed'\<close> to the subscriber, if one is
  installed, creates no peer connection and no socket and sets no local stream, and throws
  to its caller an \<open>Error\<close> with a fixed message that does not carry the platform's reason.
\<close>

theorem refused_media:
  "getUserMediaP P (ctype = ''video'') = Inl e \<Longrightarrow>
     initializeCall P sid ctype isInit m =
       Throw (Error ''Could not access camera/microphone. Please check permissions.'')
         (state_of (initializeCall P sid ctype isInit m))
     \<and> effects (state_of (initializeCall P sid ctype isInit m)) =
         effects m
         @ [ConsoleError ''Error accessing media devices:'', ConsoleError ''Failed to initialize call:'']
         @ (if onCallStateChange m then [CallStateChange ''failed''] else [])
     \<and> peerConnection (state_of (initializeCall P sid ctype isInit m)) = peerConnection m
     \<and> signalingSocket (state_of (initializeCall P sid ctype isInit m)) = signalingSocket m
     \<and> localStream (state_of (initializeCall P sid ctype isInit m)) = localStream m"
  by (simp add: initializeCall_def getUserMedia_def console_error_def updateCallState_def)

text \<open>
  The permission is denied on a manager with its subscribers installed.
\<close>

theorem refused_media_witness:
  "getUserMediaP permission_denied True = Inl (DOMException ''NotAllowedError'')
   \<and> initializeCall permission_denied ''sess-1'' ''video'' True subscribed =
       Throw (Error ''Could not access camera/microphone. Please check permissions.'')
         (state_of (initializeCall permission_denied ''sess-1'' ''video'' True subscribed))
   \<and> effects (state_of (initializeCall permission_denied ''sess-1'' ''video'' True subscribed)) =
       [ConsoleError ''Error accessing media devices:'', ConsoleError ''Failed to initialize call:'',
        CallStateChange ''failed'']
   \<and> peerConnection (state_of (initializeCall permission_denied ''sess-1'' ''video'' True subscribed)) = None
   \<and> signalingSocket (state_of (initializeCall permission_denied ''sess-1'' ''video'' True subscribed)) = None
   \<and> localStream (state_of (initializeCall permission_denied ''sess-1'' ''video'' True subscribed)) = None"
proof -
  have g: "getUserMediaP permission_denied (''video'' = ''video'') = Inl (DOMException ''NotAllowedError'')"
    by (simp add: permission_denied_def)
  have s: "effects subscribed = []" "onCallStateChange subscribed" "peerConnection subscribed = None"
    "signalingSocket subscribed = None" "localStream subscribed = None"
    by (simp_all add: subscribed_def constructor_def)
  show ?thesis
    using refused_media [OF g, of "''sess-1''" True subscribed] g s by simp
qed

text \<open>
  The claim as stated fails: the call does not complete normally but throws to its caller
  (\<open>VideoCallUI.startCall\<close>, which catches it), and what is thrown and notified for a denied
  permission is what is thrown and notified for a missing device.
\<close>

theorem denial_rethrown_without_reason:
  "initializeCall permission_denied ''sess-1'' ''video'' True subscribed =
     Throw (Error ''Could not access camera/microphone. Please check permissions.'')
       (subscribed\<lparr>callSessionId := Some ''sess-1'', callType := ''video'', isInitiator := True,
          effects := [ConsoleError ''Error accessing media devices:'',
                      ConsoleError ''Failed to initialize call:'', CallStateChange ''failed'']\<rparr>)
   \<and> initializeCall device_unavailable ''sess-1'' ''video'' True subscribed =
       initializeCall permission_denied ''sess-1'' ''video'' True subscribed"
  by (simp add: initializeCall_def getUserMedia_def console_error_def updateCallState_def
      permission_denied_def device_unavailable_def subscribed_def constructor_def)

end
